theory Spec2Isabelle
  imports Main
begin

section \<open>Strings, values and formatting\<close>

text \<open>
  Go strings are byte sequences and \<open>len\<close> counts bytes; they are modelled as
  \<open>string\<close> (a list of \<open>char\<close>, one per byte).
\<close>

abbreviation quote :: string where
  "quote \<equiv> [CHR 0x27]"

abbreviation backslash :: string where
  "backslash \<equiv> [CHR 0x5C]"

text \<open>
  The errors of the program: the three sentinel errors of the resource package that the
  handler returns, \<open>sql.ErrNoRows\<close> of database/sql, and any other error value
  produced by the database driver or the context, known by its message.
\<close>

datatype error =
    ErrNotFound
  | ErrConflict
  | ErrNotImplemented
  | ErrNoRows
  | ErrDriver string

text \<open>A run-time panic is not an error value: it unwinds the call.\<close>

datatype panic = SliceBoundsOutOfRange | InterfaceConversion

datatype fault = Error error | Panic panic

type_synonym 'a result = "fault + 'a"

text \<open>
  A value of type \<open>interface{}\<close> (\<open>query.Value\<close>), by dynamic type.
  An \<open>int\<close> carries its number. A \<open>float64\<close> and a \<open>time.Time\<close> carry
  the text that the \<open>%v\<close> verb of package fmt prints for them (the formatting of
  floating point numbers and of times belongs to the Go library). A value of any other
  dynamic type carries the texts that \<open>%v\<close> and \<open>%s\<close> print for it.
\<close>

datatype gvalue =
    GInt int
  | GFloat string
  | GBool bool
  | GString string
  | GTime string
  | GBytes string
  | GNil
  | GOther string string

fun digitsOf :: "nat \<Rightarrow> string" where
  "digitsOf n =
     (if n < 10 then [''0123456789'' ! n]
      else digitsOf (n div 10) @ [''0123456789'' ! (n mod 10)])"

declare digitsOf.simps [simp del]

definition fmtD :: "int \<Rightarrow> string" where
  "fmtD i = (if i < 0 then ''-'' @ digitsOf (nat (- i)) else digitsOf (nat i))"

text \<open>\<open>strings.Join(elems, sep)\<close>.\<close>

fun stringsJoin :: "string list \<Rightarrow> string \<Rightarrow> string" where
  "stringsJoin [] sep = []"
| "stringsJoin [x] sep = x"
| "stringsJoin (x # y # ys) sep = x @ sep @ stringsJoin (y # ys) sep"

text \<open>\<open>fmt.Sprintf("%v", i)\<close>.\<close>

fun fmtV :: "gvalue \<Rightarrow> string" where
  "fmtV (GInt i) = fmtD i"
| "fmtV (GFloat t) = t"
| "fmtV (GBool b) = (if b then ''true'' else ''false'')"
| "fmtV (GString s) = s"
| "fmtV (GTime t) = t"
| "fmtV (GBytes b) = ''['' @ stringsJoin (map (\<lambda>c. digitsOf (of_char c)) b) '' '' @ '']''"
| "fmtV GNil = ''<nil>''"
| "fmtV (GOther v s) = v"

text \<open>\<open>fmt.Sprintf("%s", i)\<close>: a value that is no string gets the bad-verb form.\<close>

fun fmtS :: "gvalue \<Rightarrow> string" where
  "fmtS (GInt i) = ''%!s(int='' @ fmtD i @ '')''"
| "fmtS (GFloat t) = ''%!s(float64='' @ t @ '')''"
| "fmtS (GBool b) = ''%!s(bool='' @ (if b then ''true'' else ''false'') @ '')''"
| "fmtS (GString s) = s"
| "fmtS (GTime t) = t"
| "fmtS (GBytes b) = b"
| "fmtS GNil = ''%!s(<nil>)''"
| "fmtS (GOther v s) = s"

text \<open>
  The slice expression \<open>s[:n]\<close>: it panics when \<open>n\<close> is negative or beyond the
  length of \<open>s\<close>.
\<close>

definition sliceTo :: "string \<Rightarrow> int \<Rightarrow> string result" where
  "sliceTo s n =
     (if n < 0 \<or> int (length s) < n then Inl (Panic SliceBoundsOutOfRange)
      else Inr (take (nat n) s))"

text \<open>
  \<open>strings.Replace(s, old, new, -1)\<close> for a pattern \<open>old\<close> of one byte: every
  occurrence of the byte is replaced.
\<close>

definition stringsReplace :: "string \<Rightarrow> char \<Rightarrow> string \<Rightarrow> string" where
  "stringsReplace s old new = concat (map (\<lambda>c. if c = old then new else [c]) s)"

section \<open>The value encoder (query.go)\<close>

fun valueToString :: "gvalue \<Rightarrow> string result" where
  "valueToString (GInt i) = Inr ([] @ fmtV (GInt i))"
| "valueToString (GFloat t) = Inr ([] @ fmtV (GFloat t))"
| "valueToString (GBool b) = Inr ([] @ fmtV (GBool b))"
| "valueToString (GString s) = Inr ([] @ quote @ fmtV (GString s) @ quote)"
| "valueToString (GTime t) = Inr ([] @ quote @ fmtV (GTime t) @ quote)"
| "valueToString v = Inr ([] @ quote @ fmtV v @ quote)"

fun valuesLoop :: "gvalue list \<Rightarrow> string \<Rightarrow> string result" where
  "valuesLoop [] str = Inr str"
| "valuesLoop (v # vs) str =
     (case valueToString v of
        Inl e \<Rightarrow> Inl e
      | Inr s \<Rightarrow> valuesLoop vs (str @ s @ '',''))"

definition valuesToString :: "gvalue list \<Rightarrow> string result" where
  "valuesToString v =
     (case valuesLoop v [] of
        Inl e \<Rightarrow> Inl e
      | Inr str \<Rightarrow> sliceTo str (int (length str) - 1))"

section \<open>The predicate translator (query.go)\<close>

text \<open>
  An expression of a predicate, by dynamic type. \<open>Unsupported\<close> stands for every
  expression type that the type switch of \<open>translatePredicate\<close> does not name; it
  carries the name of the type.
\<close>

datatype expression =
    And "expression list"
  | Or "expression list"
  | In string "gvalue list"
  | NotIn string "gvalue list"
  | Equal string gvalue
  | NotEqual string gvalue
  | GreaterThan string gvalue
  | GreaterOrEqual string gvalue
  | LowerThan string gvalue
  | LowerOrEqual string gvalue
  | Unsupported string

text \<open>
  An error of \<open>valueToString\<close> or \<open>valuesToString\<close> is reported by the translator
  as \<open>resource.ErrNotImplemented\<close>; a panic goes on unwinding.
\<close>

fun notImplemented :: "string result \<Rightarrow> string result" where
  "notImplemented (Inl (Error e)) = Inl (Error ErrNotImplemented)"
| "notImplemented (Inl (Panic p)) = Inl (Panic p)"
| "notImplemented (Inr v) = Inr v"

fun isString :: "gvalue \<Rightarrow> bool" where
  "isString (GString s) = True"
| "isString v = False"

text \<open>
  \<open>translateLoop p str\<close> is the loop of \<open>translatePredicate\<close> over the expressions
  \<open>p\<close> still to visit, with the local variable \<open>str\<close>; \<open>andLoop t s\<close> and
  \<open>orLoop t s\<close> are the inner loops over the children of a group, with the local
  variable \<open>s\<close>. The recursive call \<open>translatePredicate(query.Predicate{subExp})\<close>
  starts a loop over the one expression with an empty \<open>str\<close>.
\<close>

function translateLoop :: "expression list \<Rightarrow> string \<Rightarrow> string result"
  and andLoop :: "expression list \<Rightarrow> string \<Rightarrow> string result"
  and orLoop :: "expression list \<Rightarrow> string \<Rightarrow> string result"
where
  "translateLoop [] str = Inr str"
| "translateLoop (And t # p) str =
     (case andLoop t [] of
        Inl e \<Rightarrow> Inl e
      | Inr s \<Rightarrow>
          (case sliceTo s (int (length s) - 5) of
             Inl e \<Rightarrow> Inl e
           | Inr s' \<Rightarrow> translateLoop p (str @ ''('' @ s' @ '')'')))"
| "translateLoop (Or t # p) str =
     (case orLoop t [] of
        Inl e \<Rightarrow> Inl e
      | Inr s \<Rightarrow>
          (case sliceTo s (int (length s) - 4) of
             Inl e \<Rightarrow> Inl e
           | Inr s' \<Rightarrow> translateLoop p (str @ ''('' @ s' @ '')'')))"
| "translateLoop (In field vals # p) str =
     (case notImplemented (valuesToString vals) of
        Inl e \<Rightarrow> Inl e
      | Inr v \<Rightarrow> translateLoop p (str @ field @ '' IN ('' @ v @ '')''))"
| "translateLoop (NotIn field vals # p) str =
     (case notImplemented (valuesToString vals) of
        Inl e \<Rightarrow> Inl e
      | Inr v \<Rightarrow> translateLoop p (str @ field @ '' NOT IN ('' @ v @ '')''))"
| "translateLoop (Equal field val # p) str =
     (case notImplemented (valueToString val) of
        Inl e \<Rightarrow> Inl e
      | Inr v \<Rightarrow>
          (if isString val then
             translateLoop p
               (str @ field @ '' LIKE ''
                  @ stringsReplace (stringsReplace v (CHR ''*'') ''%'') (CHR ''_'')
                      (backslash @ ''_'')
                  @ '' ESCAPE '' @ quote @ backslash @ quote)
           else translateLoop p (str @ field @ '' IS '' @ v)))"
| "translateLoop (NotEqual field val # p) str =
     (case notImplemented (valueToString val) of
        Inl e \<Rightarrow> Inl e
      | Inr v \<Rightarrow>
          (if isString val then
             translateLoop p
               (str @ field @ '' NOT LIKE ''
                  @ stringsReplace (stringsReplace v (CHR ''*'') ''%'') (CHR ''_'')
                      (backslash @ ''_'')
                  @ '' ESCAPE '' @ quote @ backslash @ quote)
           else translateLoop p (str @ field @ '' IS NOT '' @ v)))"
| "translateLoop (GreaterThan field val # p) str =
     (case notImplemented (valueToString val) of
        Inl e \<Rightarrow> Inl e
      | Inr v \<Rightarrow> translateLoop p (str @ field @ '' > '' @ v))"
| "translateLoop (GreaterOrEqual field val # p) str =
     (case notImplemented (valueToString val) of
        Inl e \<Rightarrow> Inl e
      | Inr v \<Rightarrow> translateLoop p (str @ field @ '' >= '' @ v))"
| "translateLoop (LowerThan field val # p) str =
     (case notImplemented (valueToString val) of
        Inl e \<Rightarrow> Inl e
      | Inr v \<Rightarrow> translateLoop p (str @ field @ '' < '' @ v))"
| "translateLoop (LowerOrEqual field val # p) str =
     (case notImplemented (valueToString val) of
        Inl e \<Rightarrow> Inl e
      | Inr v \<Rightarrow> translateLoop p (str @ field @ '' <= '' @ v))"
| "translateLoop (Unsupported ty # p) str = Inl (Error ErrNotImplemented)"
| "andLoop [] s = Inr s"
| "andLoop (subExp # t) s =
     (case translateLoop [subExp] [] of
        Inl e \<Rightarrow> Inl e
      | Inr sb \<Rightarrow> andLoop t (s @ sb @ '' AND ''))"
| "orLoop [] s = Inr s"
| "orLoop (subExp # t) s =
     (case translateLoop [subExp] [] of
        Inl e \<Rightarrow> Inl e
      | Inr sb \<Rightarrow> orLoop t (s @ sb @ '' OR ''))"
  by pat_completeness auto

termination
  by (relation "measure (\<lambda>x. case x of
        Inl (p, str) \<Rightarrow> 2 * size_list size p
      | Inr (Inl (t, s)) \<Rightarrow> 2 * size_list size t + 1
      | Inr (Inr (t, s)) \<Rightarrow> 2 * size_list size t + 1)") auto

definition translatePredicate :: "expression list \<Rightarrow> string result" where
  "translatePredicate p = translateLoop p []"

section \<open>Queries and the statement builder\<close>

record sortField =
  Name :: string
  Reversed :: bool

record window =
  Offset :: int
  Limit :: int

text \<open>
  A \<open>query.Query\<close>. The sort list is a slice and the window a pointer: \<open>None\<close>
  is \<open>nil\<close>. A nil predicate is the empty list.
\<close>

record query =
  Predicate :: "expression list"
  Sort :: "sortField list option"
  Window :: "window option"

text \<open>The handler's table name; its database session is the driver state below.\<close>

record handler =
  tableName :: string

definition getQuery :: "query \<Rightarrow> string result" where
  "getQuery q = translatePredicate (Predicate q)"

fun sortLoop :: "sortField list \<Rightarrow> string \<Rightarrow> string" where
  "sortLoop [] str = str"
| "sortLoop (sf # l) str =
     sortLoop l
       ((if Reversed sf then str @ Name sf @ '' DESC'' else str @ Name sf) @ '','')"

definition getSort :: "query \<Rightarrow> string result" where
  "getSort q =
     (let l = (case Sort q of None \<Rightarrow> [] | Some l \<Rightarrow> l) in
      if length l = 0 then Inr ''id''
      else (let str = sortLoop l [] in sliceTo str (int (length str) - 1)))"

definition getSelect :: "handler \<Rightarrow> query \<Rightarrow> string result" where
  "getSelect h q =
     (let str = ''SELECT * FROM '' @ tableName h in
      case getQuery q of
        Inl e \<Rightarrow> Inl e
      | Inr qry \<Rightarrow>
          (let str = (if qry \<noteq> [] then str @ '' WHERE '' @ qry else str) in
           case (if Sort q \<noteq> None
                 then (case getSort q of
                         Inl e \<Rightarrow> Inl e
                       | Inr srt \<Rightarrow> Inr (str @ '' ORDER BY '' @ srt))
                 else Inr str) of
             Inl e \<Rightarrow> Inl e
           | Inr str \<Rightarrow>
               (let str =
                  (case Window q of
                     None \<Rightarrow> str
                   | Some w \<Rightarrow>
                       (if Limit w \<ge> 0
                        then (str @ '' LIMIT '' @ fmtD (Limit w))
                               @ '' OFFSET '' @ fmtD (Offset w)
                        else str))
                in Inr (str @ '';''))))"

definition getDelete :: "handler \<Rightarrow> query \<Rightarrow> string result" where
  "getDelete h q =
     (let str = ''DELETE FROM '' @ tableName h @ '' WHERE '' in
      case getQuery q of
        Inl e \<Rightarrow> Inl e
      | Inr qry \<Rightarrow> Inr (str @ qry @ '';''))"

section \<open>Items and the INSERT and UPDATE statements (pgsql.go)\<close>

text \<open>
  A \<open>resource.Item\<close>. The payload is a Go map. A time is known by its text.
\<close>

record item =
  ID :: gvalue
  ETag :: string
  Updated :: string
  Payload :: "string \<rightharpoonup> gvalue"

text \<open>
  The order in which a \<open>range\<close> statement visits a map is not specified. A loop
  over a map takes the order \<open>ks\<close> in which the keys are visited as an argument;
  \<open>rangeMap m ks\<close> is the sequence of entries visited. For a full visit \<open>ks\<close>
  lists every key of the map once.
\<close>

definition rangeMap :: "('k \<rightharpoonup> 'v) \<Rightarrow> 'k list \<Rightarrow> ('k \<times> 'v) list" where
  "rangeMap m ks = List.map_filter (\<lambda>k. map_option (Pair k) (m k)) ks"

definition fullVisit :: "('k \<rightharpoonup> 'v) \<Rightarrow> 'k list \<Rightarrow> bool" where
  "fullVisit m ks = (distinct ks \<and> set ks = dom m)"

text \<open>
  The server clock: \<open>clk n\<close> is the text of
  \<open>time.Now().Format(time.RFC3339)\<close> at the reading made in iteration \<open>n\<close> of
  the loop that reads the clock.
\<close>

type_synonym clock = "nat \<Rightarrow> string"

fun getInsertLoop ::
  "clock \<Rightarrow> nat \<Rightarrow> (string \<times> gvalue) list \<Rightarrow> string \<Rightarrow> string \<Rightarrow> (string \<times> string) result"
where
  "getInsertLoop clk n [] a z = Inr (a, z)"
| "getInsertLoop clk n ((k, v) # kvs) a z =
     (case notImplemented (valueToString v) of
        Inl e \<Rightarrow> Inl e
      | Inr val \<Rightarrow>
          getInsertLoop clk (Suc n) kvs (a @ k @ '','')
            (z @ (if k = ''created'' \<or> k = ''updated''
                  then quote @ clk n @ quote else val) @ '',''))"

definition getInsert :: "clock \<Rightarrow> handler \<Rightarrow> item \<Rightarrow> string list \<Rightarrow> string result" where
  "getInsert clk h i ks =
     (case getInsertLoop clk 0 (rangeMap (Payload i) ks)
             (''INSERT INTO '' @ tableName h @ ''(etag,'')
             (''VALUES('' @ (quote @ ETag i @ quote) @ '','') of
        Inl e \<Rightarrow> Inl e
      | Inr (a, z) \<Rightarrow>
          (case sliceTo a (int (length a) - 1) of
             Inl e \<Rightarrow> Inl e
           | Inr a' \<Rightarrow>
               (case sliceTo z (int (length z) - 1) of
                  Inl e \<Rightarrow> Inl e
                | Inr z' \<Rightarrow> Inr ((a' @ '')'') @ '' '' @ (z' @ '')'') @ '';''))))"

fun getUpdateLoop ::
  "clock \<Rightarrow> nat \<Rightarrow> (string \<times> gvalue) list \<Rightarrow> string \<Rightarrow> string result"
where
  "getUpdateLoop clk n [] a = Inr a"
| "getUpdateLoop clk n ((k, v) # kvs) a =
     (if k \<noteq> ''id'' then
        (case notImplemented (valueToString v) of
           Inl e \<Rightarrow> Inl e
         | Inr val \<Rightarrow>
             getUpdateLoop clk (Suc n) kvs
               (a @ (k @ ''='' @ (if k = ''updated'' then quote @ clk n @ quote else val)
                     @ '','')))
      else getUpdateLoop clk (Suc n) kvs a)"

definition getUpdate ::
  "clock \<Rightarrow> handler \<Rightarrow> item \<Rightarrow> item \<Rightarrow> string list \<Rightarrow> string result"
where
  "getUpdate clk h i o' ks =
     (case notImplemented (valueToString (ID o')) of
        Inl e \<Rightarrow> Inl e
      | Inr id' \<Rightarrow>
          (let a = ''UPDATE '' @ tableName h @ '' SET etag='' @ (quote @ ETag i @ quote) @ '','';
               z = ''WHERE id='' @ id' @ '' AND etag='' @ (quote @ ETag o' @ quote) @ '';''
           in case getUpdateLoop clk 0 (rangeMap (Payload i) ks) a of
                Inl e \<Rightarrow> Inl e
              | Inr a \<Rightarrow>
                  (case sliceTo a (int (length a) - 1) of
                     Inl e \<Rightarrow> Inl e
                   | Inr a \<Rightarrow> Inr (a @ '' '' @ z))))"

section \<open>The database session\<close>

text \<open>
  The database is outside the program. It is a state of some type \<open>'db\<close> and a
  driver: for each call that the handler makes on \<open>database/sql\<close>, the answer and
  the next state. A result set is the answer of \<open>rows.Columns()\<close>, for each row
  that \<open>rows.Next()\<close> announces the outcome of \<open>rows.Scan\<close>, and the answer of
  \<open>rows.Err()\<close> after the last row.
\<close>

record resultSet =
  rsColumns :: "error + string list"
  rsScans :: "(error + gvalue list) list"
  rsErr :: "error option"

text \<open>
  \<open>sessionExec\<close> answers an error or a result, of which \<open>RowsAffected()\<close> is
  an error or a count. \<open>sessionQueryRowScan\<close> is \<open>QueryRow(_).Scan(&etag)\<close> on
  the session, into a string; \<open>txQueryRowScan\<close> is \<open>QueryRow(_).Scan(&ID)\<close> on
  the open transaction. A prepared statement is known by its text.
\<close>

record 'db driver =
  sessionQuery :: "string \<Rightarrow> 'db \<Rightarrow> (error + resultSet) \<times> 'db"
  rowsClose :: "'db \<Rightarrow> 'db"
  sessionBegin :: "'db \<Rightarrow> error option \<times> 'db"
  sessionExec :: "string \<Rightarrow> 'db \<Rightarrow> (error + (error + int)) \<times> 'db"
  sessionQueryRowScan :: "string \<Rightarrow> 'db \<Rightarrow> (error + string) \<times> 'db"
  sessionPrepare :: "string \<Rightarrow> 'db \<Rightarrow> error option \<times> 'db"
  stmtExec :: "string \<Rightarrow> 'db \<Rightarrow> error option \<times> 'db"
  sessionClose :: "'db \<Rightarrow> 'db"
  txQueryRowScan :: "string \<Rightarrow> 'db \<Rightarrow> error option \<times> 'db"
  txRollback :: "'db \<Rightarrow> error option \<times> 'db"
  txCommit :: "'db \<Rightarrow> error option \<times> 'db"

section \<open>The row and item mapper (pgsql.go)\<close>





section \<open>The storage handler (pgsql.go)\<close>





text \<open>
  \<open>Insert\<close>: each item comes with the order in which \<open>getInsert\<close> visits its
  payload; \<open>clk j\<close> is the clock during the call of \<open>getInsert\<close> for item \<open>j\<close>.
  A panic unwinds without the rollback.
\<close>

fun InsertLoop ::
  "'db driver \<Rightarrow> (nat \<Rightarrow> clock) \<Rightarrow> handler \<Rightarrow> nat \<Rightarrow> (item \<times> string list) list \<Rightarrow> 'db
     \<Rightarrow> unit result \<times> 'db"
where
  "InsertLoop d clk h j [] s = (Inr (), snd (txCommit d s))"
| "InsertLoop d clk h j ((i, ks) # items) s =
     (case getInsert (clk j) h i ks of
        Inl (Error err) \<Rightarrow> (Inl (Error err), snd (txRollback d s))
      | Inl (Panic p) \<Rightarrow> (Inl (Panic p), s)
      | Inr stmt \<Rightarrow>
          (case sessionExec d stmt s of
             (Inl err, s) \<Rightarrow> (Inl (Error err), snd (txRollback d s))
           | (Inr res, s) \<Rightarrow> InsertLoop d clk h (Suc j) items s))"

definition Insert ::
  "'db driver \<Rightarrow> (nat \<Rightarrow> clock) \<Rightarrow> handler \<Rightarrow> (item \<times> string list) list \<Rightarrow> 'db
     \<Rightarrow> unit result \<times> 'db"
where
  "Insert d clk h items s =
     (case sessionBegin d s of
        (Some err, s) \<Rightarrow> (Inl (Error err), s)
      | (None, s) \<Rightarrow> InsertLoop d clk h 0 items s)"

text \<open>
  \<open>compareEtags\<close>: the comparison \<open>etag != origEtag\<close> is between the string read
  and a value of interface type.
\<close>

definition compareEtags ::
  "'db driver \<Rightarrow> handler \<Rightarrow> gvalue \<Rightarrow> gvalue \<Rightarrow> 'db \<Rightarrow> unit result \<times> 'db"
where
  "compareEtags d h id' origEtag s =
     (case sessionQueryRowScan d
             (''SELECT etag FROM '' @ tableName h @ '' WHERE id='' @ quote @ fmtV id' @ quote) s of
        (Inl err, s) \<Rightarrow> (Inl (Error err), s)
      | (Inr etag, s) \<Rightarrow>
          (if GString etag \<noteq> origEtag then (Inl (Error ErrConflict), s)
           else (Inr (), s)))"

definition Update ::
  "'db driver \<Rightarrow> clock \<Rightarrow> handler \<Rightarrow> item \<Rightarrow> item \<Rightarrow> string list \<Rightarrow> 'db
     \<Rightarrow> unit result \<times> 'db"
where
  "Update d clk h item' original ks s =
     (case sessionBegin d s of
        (Some err, s) \<Rightarrow> (Inl (Error err), s)
      | (None, s) \<Rightarrow>
          (case compareEtags d h (ID original) (GString (ETag original)) s of
             (Inl (Error err), s) \<Rightarrow> (Inl (Error err), snd (txRollback d s))
           | (Inl (Panic p), s) \<Rightarrow> (Inl (Panic p), s)
           | (Inr u, s) \<Rightarrow>
               (case getUpdate clk h item' original ks of
                  Inl (Error err) \<Rightarrow> (Inl (Error err), snd (txRollback d s))
                | Inl (Panic p) \<Rightarrow> (Inl (Panic p), s)
                | Inr stmt \<Rightarrow>
                    (case sessionExec d stmt s of
                       (Inl err, s) \<Rightarrow> (Inl (Error err), snd (txRollback d s))
                     | (Inr res, s) \<Rightarrow> (Inr (), snd (txCommit d s))))))"

definition Delete ::
  "'db driver \<Rightarrow> handler \<Rightarrow> item \<Rightarrow> 'db \<Rightarrow> unit result \<times> 'db"
where
  "Delete d h item' s =
     (case sessionBegin d s of
        (Some err, s) \<Rightarrow> (Inl (Error err), s)
      | (None, s) \<Rightarrow>
          (case compareEtags d h (ID item') (GString (ETag item')) s of
             (Inl (Error err), s) \<Rightarrow> (Inl (Error err), snd (txRollback d s))
           | (Inl (Panic p), s) \<Rightarrow> (Inl (Panic p), s)
           | (Inr u, s) \<Rightarrow>
               (let stmt = ''DELETE FROM '' @ tableName h @ '' WHERE id = '' @ quote
                             @ fmtS (ID item') @ quote
                in case sessionPrepare d stmt s of
                     (Some err, s) \<Rightarrow> (Inl (Error err), snd (txRollback d s))
                   | (None, s) \<Rightarrow>
                       (case stmtExec d stmt s of
                          (Some err, s) \<Rightarrow> (Inl (Error err), snd (txRollback d s))
                        | (None, s) \<Rightarrow> (Inr (), snd (txCommit d s))))))"

text \<open>\<open>Clear\<close> returns a count and an error; \<open>None\<close> is the nil error.\<close>

definition Clear ::
  "'db driver \<Rightarrow> handler \<Rightarrow> query \<Rightarrow> 'db \<Rightarrow> (panic + int \<times> error option) \<times> 'db"
where
  "Clear d h q s =
     (case getDelete h q of
        Inl (Error err) \<Rightarrow> (Inr (- 1, Some err), s)
      | Inl (Panic p) \<Rightarrow> (Inl p, s)
      | Inr stmt \<Rightarrow>
          (case sessionExec d stmt s of
             (Inl err, s) \<Rightarrow> (Inr (- 1, Some err), s)
           | (Inr (Inl err), s) \<Rightarrow> (Inr (- 1, None), s)
           | (Inr (Inr ra), s) \<Rightarrow> (Inr (ra, None), s)))"

section \<open>The later revision of the insert path\<close>

text \<open>
  The second revision of the handler in the repository inserts through \<open>sqlItem\<close>
  values. Its \<open>Insert\<close> is \<open>InsertSQL\<close> here.
\<close>

record sqlItem =
  sqlID :: gvalue
  sqlETag :: string
  sqlUpdated :: string
  sqlPayload :: "string \<rightharpoonup> gvalue"

fun newSQLItemLoop ::
  "(string \<times> gvalue) list \<Rightarrow> (string \<rightharpoonup> gvalue) \<Rightarrow> (string \<rightharpoonup> gvalue)"
where
  "newSQLItemLoop [] p = p"
| "newSQLItemLoop ((k, v) # kvs) p =
     (if k \<noteq> ''id'' then newSQLItemLoop kvs (p(k \<mapsto> v)) else newSQLItemLoop kvs p)"

definition newSQLItem :: "item \<Rightarrow> string list \<Rightarrow> sqlItem" where
  "newSQLItem i ks =
     (let p = newSQLItemLoop (rangeMap (Payload i) ks) Map.empty in
      \<lparr>sqlID = ID i, sqlETag = ETag i, sqlUpdated = Updated i, sqlPayload = p\<rparr>)"

text \<open>\<open>err.Error()\<close>, with the messages of the resource and sql packages.\<close>

fun errorText :: "error \<Rightarrow> string" where
  "errorText ErrNotFound = ''Not Found''"
| "errorText ErrConflict = ''Conflict''"
| "errorText ErrNotImplemented = ''Not Implemented''"
| "errorText ErrNoRows = ''sql: no rows in result set''"
| "errorText (ErrDriver m) = m"

fun hasPrefix :: "string \<Rightarrow> string \<Rightarrow> bool" where
  "hasPrefix s [] = True"
| "hasPrefix [] (c # cs) = False"
| "hasPrefix (x # xs) (c # cs) = (x = c \<and> hasPrefix xs cs)"

fun stringsContains :: "string \<Rightarrow> string \<Rightarrow> bool" where
  "stringsContains [] substr = (substr = [])"
| "stringsContains (x # xs) substr = (hasPrefix (x # xs) substr \<or> stringsContains xs substr)"

fun insertItemsColumns ::
  "(string \<times> gvalue) list \<Rightarrow> string \<Rightarrow> string \<Rightarrow> (string \<times> string) result"
where
  "insertItemsColumns [] columns rows = Inr (columns, rows)"
| "insertItemsColumns ((key, value) # kvs) columns rows =
     (case valueToString value of
        Inl e \<Rightarrow> Inl e
      | Inr v \<Rightarrow> insertItemsColumns kvs (columns @ key @ '', '') (rows @ v @ '', ''))"

text \<open>The statement that one iteration of \<open>insertItems\<close> prepares for an item.\<close>

definition insertItemsStatement :: "handler \<Rightarrow> sqlItem \<Rightarrow> string list \<Rightarrow> string result" where
  "insertItemsStatement h i ks =
     (case insertItemsColumns (rangeMap (sqlPayload i) ks) ''(etag, ''
             (''VALUES('' @ quote @ sqlETag i @ quote @ '', '') of
        Inl e \<Rightarrow> Inl e
      | Inr (cString, rString) \<Rightarrow>
          (case sliceTo cString (int (length cString) - 2) of
             Inl e \<Rightarrow> Inl e
           | Inr c \<Rightarrow>
               (case sliceTo rString (int (length rString) - 2) of
                  Inl e \<Rightarrow> Inl e
                | Inr r \<Rightarrow>
                    Inr ((''INSERT INTO '' @ tableName h) @ (c @ '')'')
                           @ (r @ '') RETURNING id'')))))"

text \<open>
  \<open>insertItems\<close>: each iteration defers a \<open>h.session.Close()\<close>; \<open>n\<close> counts the
  deferred calls, which run when the function returns or panics.
\<close>

fun insertItemsLoop ::
  "'db driver \<Rightarrow> handler \<Rightarrow> (sqlItem \<times> string list) list \<Rightarrow> nat \<Rightarrow> 'db
     \<Rightarrow> unit result \<times> 'db"
where
  "insertItemsLoop d h [] n s = (Inr (), (sessionClose d ^^ n) s)"
| "insertItemsLoop d h ((i, ks) # items) n s =
     (case sessionBegin d s of
        (Some err, s) \<Rightarrow> (Inl (Error err), (sessionClose d ^^ n) s)
      | (None, s) \<Rightarrow>
          (case insertItemsStatement h i ks of
             Inl e \<Rightarrow> (Inl e, (sessionClose d ^^ Suc n) s)
           | Inr query \<Rightarrow>
               (case txQueryRowScan d query s of
                  (Some err, s) \<Rightarrow>
                    (if stringsContains (errorText err @ [CHR 0x0A])
                          ''pq: duplicate key value violates unique constraint''
                     then (Inl (Error ErrConflict),
                           (sessionClose d ^^ Suc n) (snd (txRollback d s)))
                     else (Inl (Error err),
                           (sessionClose d ^^ Suc n) (snd (txRollback d s))))
                | (None, s) \<Rightarrow>
                    (case txCommit d s of
                       (Some err, s) \<Rightarrow> (Inl (Error err), (sessionClose d ^^ Suc n) s)
                     | (None, s) \<Rightarrow> insertItemsLoop d h items (Suc n) s))))"

definition insertItems ::
  "'db driver \<Rightarrow> handler \<Rightarrow> (sqlItem \<times> string list) list \<Rightarrow> 'db \<Rightarrow> unit result \<times> 'db"
where
  "insertItems d h items s = insertItemsLoop d h items 0 s"

text \<open>
  \<open>InsertSQL\<close>: each item comes with the order in which \<open>newSQLItem\<close> visits its
  payload and the order in which \<open>insertItems\<close> visits the payload of the
  \<open>sqlItem\<close>; \<open>ctxErr\<close> is the answer of \<open>ctx.Err()\<close>.
\<close>

definition InsertSQL ::
  "'db driver \<Rightarrow> error option \<Rightarrow> handler \<Rightarrow> (item \<times> string list \<times> string list) list \<Rightarrow> 'db
     \<Rightarrow> unit result \<times> 'db"
where
  "InsertSQL d ctxErr h items s =
     (let pItems = map (\<lambda>(item', ks, ks'). (newSQLItem item' ks, ks')) items in
      case insertItems d h pItems s of
        (Inl e, s) \<Rightarrow> (Inl e, s)
      | (Inr u, s) \<Rightarrow>
          (case ctxErr of
             Some err \<Rightarrow> (Inl (Error err), s)
           | None \<Rightarrow> (Inr (), s)))"

section \<open>Notions used by the properties\<close>



text \<open>The LIKE pattern of a string: \<open>*\<close> becomes \<open>%\<close> and \<open>_\<close> becomes \<open>\_\<close>.\<close>

definition likePattern :: "string \<Rightarrow> string" where
  "likePattern s =
     concat (map (\<lambda>c. if c = CHR ''*'' then ''%''
                       else if c = CHR ''_'' then backslash @ ''_''
                       else [c]) s)"

text \<open>The scalar types that the value encoder names.\<close>

fun scalar :: "gvalue \<Rightarrow> bool" where
  "scalar (GInt i) = True"
| "scalar (GFloat t) = True"
| "scalar (GBool b) = True"
| "scalar (GString s) = True"
| "scalar (GTime t) = True"
| "scalar v = False"

text \<open>The literal that the value encoder returns for a value.\<close>

definition literal :: "gvalue \<Rightarrow> string" where
  "literal v = (case valueToString v of Inl e \<Rightarrow> [] | Inr s \<Rightarrow> s)"

text \<open>
  The text serialized for the payload entry with key \<open>k\<close> and value \<open>v\<close> that a
  statement builder visits in iteration \<open>n\<close>: on insert the keys \<open>created\<close> and
  \<open>updated\<close> get the clock reading, on update the key \<open>updated\<close> does; every
  other entry gets the literal of its value.
\<close>

definition insertValue :: "clock \<Rightarrow> nat \<times> string \<times> gvalue \<Rightarrow> string" where
  "insertValue clk e =
     (case e of (n, k, v) \<Rightarrow>
        if k = ''created'' \<or> k = ''updated'' then quote @ clk n @ quote else literal v)"

definition updateValue :: "clock \<Rightarrow> nat \<times> string \<times> gvalue \<Rightarrow> string" where
  "updateValue clk e =
     (case e of (n, k, v) \<Rightarrow>
        if k = ''updated'' then quote @ clk n @ quote else literal v)"


text \<open>An item, a clock and a handler for the examples.\<close>

definition sampleItem :: item where
  "sampleItem =
     \<lparr>ID = GString ''1'', ETag = ''e1'', Updated = ''2018-02-27T23:07:44Z'',
      Payload = [''id'' \<mapsto> GString ''1'', ''created'' \<mapsto> GString ''1999-01-01T00:00:00Z'']\<rparr>"

definition sampleClock :: clock where
  "sampleClock = (\<lambda>n. ''2018-02-27T23:07:44Z'')"

definition users :: handler where
  "users = \<lparr>tableName = ''users''\<rparr>"

text \<open>
  A database without rows that answers every call without an error of its own: a query
  for one row answers \<open>sql.ErrNoRows\<close>. Its state counts the calls.
\<close>

definition emptyDB :: "nat driver" where
  "emptyDB =
     \<lparr>sessionQuery = (\<lambda>q s. (Inr \<lparr>rsColumns = Inr [], rsScans = [], rsErr = None\<rparr>, Suc s)),
      rowsClose = Suc,
      sessionBegin = (\<lambda>s. (None, Suc s)),
      sessionExec = (\<lambda>q s. (Inr (Inr 0), Suc s)),
      sessionQueryRowScan = (\<lambda>q s. (Inl ErrNoRows, Suc s)),
      sessionPrepare = (\<lambda>q s. (None, Suc s)),
      stmtExec = (\<lambda>q s. (None, Suc s)),
      sessionClose = Suc,
      txQueryRowScan = (\<lambda>q s. (Some ErrNoRows, Suc s)),
      txRollback = (\<lambda>s. (None, Suc s)),
      txCommit = (\<lambda>s. (None, Suc s))\<rparr>"

text \<open>
  A database in which the row to insert exists already: executing a statement answers
  the duplicate-key error of the pq driver.
\<close>

definition duplicateKeyError :: error where
  "duplicateKeyError =
     ErrDriver (''pq: duplicate key value violates unique constraint ''
                  @ [CHR 0x22] @ ''users_pkey'' @ [CHR 0x22])"

definition duplicateDB :: "nat driver" where
  "duplicateDB =
     emptyDB\<lparr>sessionExec := (\<lambda>q s. (Inl duplicateKeyError, Suc s)),
             txQueryRowScan := (\<lambda>q s. (Some duplicateKeyError, Suc s))\<rparr>"



section \<open>Lemmas about the loops\<close>


lemma valueToString_literal: "valueToString v = Inr (literal v)"
  by (cases v) (simp_all add: literal_def)

lemma notImplemented_valueToString: "notImplemented (valueToString v) = Inr (literal v)"
  by (simp add: valueToString_literal)

lemma literal_not_scalar: "\<not> scalar v \<Longrightarrow> literal v = quote @ fmtV v @ quote"
  by (cases v) (simp_all add: literal_def)

lemma literal_GString: "literal (GString s) = quote @ s @ quote"
  by (simp add: literal_def)



lemma concat_sep:
  "ss \<noteq> [] \<Longrightarrow> concat (map (\<lambda>x. x @ sep) ss) = stringsJoin ss sep @ sep"
  by (induction ss sep rule: stringsJoin.induct) simp_all

lemma sliceTo_suffix:
  "sliceTo (r @ sep) (int (length (r @ sep)) - int (length sep)) = Inr r"
  by (simp add: sliceTo_def)






lemma andLoop_closed:
  "list_all2 (\<lambda>c x. translateLoop [c] [] = Inr x) t ss \<Longrightarrow>
   andLoop t s = Inr (s @ concat (map (\<lambda>x. x @ '' AND '') ss))"
  by (induction t ss arbitrary: s rule: list_all2_induct) simp_all

lemma orLoop_closed:
  "list_all2 (\<lambda>c x. translateLoop [c] [] = Inr x) t ss \<Longrightarrow>
   orLoop t s = Inr (s @ concat (map (\<lambda>x. x @ '' OR '') ss))"
  by (induction t ss arbitrary: s rule: list_all2_induct) simp_all

lemma replace_like:
  "stringsReplace (stringsReplace s (CHR ''*'') ''%'') (CHR ''_'') (backslash @ ''_'')
     = likePattern s"
  by (induction s) (simp_all add: stringsReplace_def likePattern_def)

lemma likePattern_append: "likePattern (a @ b) = likePattern a @ likePattern b"
  by (simp add: likePattern_def)

lemma likePattern_quote: "likePattern quote = quote"
  by (simp add: likePattern_def)















lemma stringsJoin_Cons:
  "stringsJoin (x # xs) sep = x @ concat (map (\<lambda>y. sep @ y) xs)"
  by (induction xs arbitrary: x) simp_all

lemma sliceTo_last: "sliceTo (r @ [c]) (int (length (r @ [c])) - 1) = Inr r"
  using sliceTo_suffix [of r "[c]"] by simp

lemma shift_sep:
  "sep @ concat (map (\<lambda>x. f x @ sep) xs) = concat (map (\<lambda>x. sep @ f x) xs) @ sep"
  by (induction xs) simp_all

lemma getInsertLoop_closed:
  "getInsertLoop clk n es a z =
     Inr (a @ concat (map (\<lambda>e. fst e @ '','') es),
          z @ concat (map (\<lambda>e. insertValue clk e @ '','') (enumerate n es)))"
  by (induction es arbitrary: n a z)
     (auto simp: notImplemented_valueToString insertValue_def)

lemma getInsert_closed:
  "getInsert clk h i ks =
     Inr (''INSERT INTO '' @ tableName h @ ''(''
            @ stringsJoin (''etag'' # map fst (rangeMap (Payload i) ks)) '','' @ '') VALUES(''
            @ stringsJoin ((quote @ ETag i @ quote)
                 # map (insertValue clk) (enumerate 0 (rangeMap (Payload i) ks))) '',''
            @ '');'')"
proof -
  define es where "es = rangeMap (Payload i) ks"
  define A where "A = ''INSERT INTO '' @ tableName h @ ''(etag'' @ concat (map (\<lambda>e. '','' @ fst e) es)"
  define Z where "Z = ''VALUES('' @ (quote @ ETag i @ quote)
      @ concat (map (\<lambda>e. '','' @ insertValue clk e) (enumerate 0 es))"
  have l: "getInsertLoop clk 0 es (''INSERT INTO '' @ tableName h @ ''(etag,'')
             (''VALUES('' @ (quote @ ETag i @ quote) @ '','') = Inr (A @ '','', Z @ '','')"
    using shift_sep [of "'',''" fst es]
      shift_sep [of "'',''" "insertValue clk" "enumerate 0 es"]
    by (simp add: getInsertLoop_closed A_def Z_def)
  have "getInsert clk h i ks = Inr ((A @ '')'') @ '' '' @ (Z @ '')'') @ '';'')"
    unfolding getInsert_def es_def [symmetric] l
    using sliceTo_last [of A "CHR '',''"] sliceTo_last [of Z "CHR '',''"]
    by simp
  then show ?thesis
    by (simp add: A_def Z_def es_def stringsJoin_Cons comp_def)
qed

lemma getUpdateLoop_closed:
  "getUpdateLoop clk n es a =
     Inr (a @ concat (map (\<lambda>e. fst (snd e) @ ''='' @ updateValue clk e @ '','')
                (filter (\<lambda>e. fst (snd e) \<noteq> ''id'') (enumerate n es))))"
  by (induction es arbitrary: n a)
     (auto simp: notImplemented_valueToString updateValue_def)

lemma getUpdate_closed:
  "getUpdate clk h i o' ks =
     Inr (''UPDATE '' @ tableName h @ '' SET ''
            @ stringsJoin ((''etag='' @ quote @ ETag i @ quote)
                 # map (\<lambda>e. fst (snd e) @ ''='' @ updateValue clk e)
                     (filter (\<lambda>e. fst (snd e) \<noteq> ''id'')
                        (enumerate 0 (rangeMap (Payload i) ks)))) '',''
            @ '' WHERE id='' @ literal (ID o') @ '' AND etag='' @ quote @ ETag o' @ quote @ '';'')"
proof -
  define es where "es = filter (\<lambda>e. fst (snd e) \<noteq> ''id'') (enumerate 0 (rangeMap (Payload i) ks))"
  define A where "A = ''UPDATE '' @ tableName h @ '' SET etag='' @ (quote @ ETag i @ quote)
      @ concat (map (\<lambda>e. '','' @ fst (snd e) @ ''='' @ updateValue clk e) es)"
  have l: "getUpdateLoop clk 0 (rangeMap (Payload i) ks)
             (''UPDATE '' @ tableName h @ '' SET etag='' @ (quote @ ETag i @ quote) @ '','')
           = Inr (A @ '','')"
    using shift_sep [of "'',''" "\<lambda>e. fst (snd e) @ ''='' @ updateValue clk e" es]
    by (simp add: getUpdateLoop_closed A_def es_def)
  have "getUpdate clk h i o' ks =
      Inr (A @ '' '' @ (''WHERE id='' @ literal (ID o') @ '' AND etag=''
             @ (quote @ ETag o' @ quote) @ '';''))"
    unfolding getUpdate_def notImplemented_valueToString Let_def sum.case l
    using sliceTo_last [of A "CHR '',''"]
    by simp
  then show ?thesis
    by (simp add: A_def es_def stringsJoin_Cons comp_def)
qed







lemma rangeMap_keys: "map fst (rangeMap m ks) = filter (\<lambda>k. k \<in> dom m) ks"
  by (induction ks) (auto simp: rangeMap_def List.map_filter_simps split: option.splits)

lemma rangeMap_full: "fullVisit m ks \<Longrightarrow> set (map fst (rangeMap m ks)) = dom m"
  by (auto simp: rangeMap_keys fullVisit_def)

lemma newSQLItemLoop_dom:
  "dom (newSQLItemLoop es p) = dom p \<union> (fst ` set es - {''id''})"
proof (induction es arbitrary: p)
  case Nil
  show ?case by simp
next
  case (Cons e es)
  obtain k v where e: "e = (k, v)" by (cases e)
  show ?case
  proof (cases "k = ''id''")
    case True
    with Cons.IH [of p] show ?thesis by (auto simp: e)
  next
    case False
    then have "dom (newSQLItemLoop (e # es) p) = dom (newSQLItemLoop es (p(k \<mapsto> v)))"
      by (simp add: e)
    also have "\<dots> = dom (p(k \<mapsto> v)) \<union> (fst ` set es - {''id''})"
      by (rule Cons.IH)
    also have "\<dots> = dom p \<union> (fst ` set (e # es) - {''id''})"
      using False by (auto simp: e)
    finally show ?thesis .
  qed
qed

lemma newSQLItem_no_id: "''id'' \<notin> dom (sqlPayload (newSQLItem i ks))"
  by (simp add: newSQLItem_def Let_def newSQLItemLoop_dom)

lemma insertItemsColumns_closed:
  "insertItemsColumns es c r =
     Inr (c @ concat (map (\<lambda>e. fst e @ '', '') es),
          r @ concat (map (\<lambda>e. literal (snd e) @ '', '') es))"
  by (induction es arbitrary: c r) (auto simp: valueToString_literal)

lemma insertItemsStatement_closed:
  "insertItemsStatement h i ks =
     Inr (''INSERT INTO '' @ tableName h @ ''(''
            @ stringsJoin (''etag'' # map fst (rangeMap (sqlPayload i) ks)) '', '' @ '')VALUES(''
            @ stringsJoin ((quote @ sqlETag i @ quote)
                 # map (\<lambda>e. literal (snd e)) (rangeMap (sqlPayload i) ks)) '', ''
            @ '') RETURNING id'')"
proof -
  define es where "es = rangeMap (sqlPayload i) ks"
  define C where "C = ''(etag'' @ concat (map (\<lambda>e. '', '' @ fst e) es)"
  define R where "R = ''VALUES('' @ quote @ sqlETag i @ quote
      @ concat (map (\<lambda>e. '', '' @ literal (snd e)) es)"
  have l: "insertItemsColumns es ''(etag, '' (''VALUES('' @ quote @ sqlETag i @ quote @ '', '')
      = Inr (C @ '', '', R @ '', '')"
    using shift_sep [of "'', ''" fst es] shift_sep [of "'', ''" "\<lambda>e. literal (snd e)" es]
    by (simp add: insertItemsColumns_closed C_def R_def)
  have "insertItemsStatement h i ks =
      Inr ((''INSERT INTO '' @ tableName h) @ (C @ '')'') @ (R @ '') RETURNING id''))"
    unfolding insertItemsStatement_def es_def [symmetric] l
    using sliceTo_suffix [of C "'', ''"] sliceTo_suffix [of R "'', ''"]
    by simp
  then show ?thesis
    by (simp add: C_def R_def es_def stringsJoin_Cons comp_def)
qed

section \<open>Properties of the specification\<close>

lemma digitsOf_digit: "n < 10 \<Longrightarrow> digitsOf n = [''0123456789'' ! n]"
  by (simp add: digitsOf.simps)


text \<open>
  C1. When every child of an AND group (of an OR group) translates to a string, the group
  translates to the children's translations, in order, joined with \<open>" AND "\<close>
  (\<open>" OR "\<close>) and wrapped in one pair of parentheses. The children are any
  expressions, groups included, so the rule holds at every depth.
\<close>

theorem and_or_group_translation:
  assumes "t \<noteq> []"
    and "list_all2 (\<lambda>c x. translatePredicate [c] = Inr x) t ss"
  shows "translatePredicate [And t] = Inr (''('' @ stringsJoin ss '' AND '' @ '')'')
       \<and> translatePredicate [Or t] = Inr (''('' @ stringsJoin ss '' OR '' @ '')'')"
proof -
  from assms have ne: "ss \<noteq> []" by (auto simp: list_all2_Nil2)
  from assms(2) have ch: "list_all2 (\<lambda>c x. translateLoop [c] [] = Inr x) t ss"
    by (simp add: translatePredicate_def)
  have a: "andLoop t [] = Inr (stringsJoin ss '' AND '' @ '' AND '')"
    using andLoop_closed [OF ch, of "[]"] ne by (simp add: concat_sep)
  have b: "orLoop t [] = Inr (stringsJoin ss '' OR '' @ '' OR '')"
    using orLoop_closed [OF ch, of "[]"] ne by (simp add: concat_sep)
  show ?thesis
    using sliceTo_suffix [of "stringsJoin ss '' AND ''" "'' AND ''"]
      sliceTo_suffix [of "stringsJoin ss '' OR ''" "'' OR ''"]
    by (simp add: translatePredicate_def a b)
qed

theorem and_or_group_translation_witness:
  "[Equal ''a'' (GInt 1), Or [GreaterThan ''b'' (GInt 2), LowerThan ''c'' (GInt 3)]] \<noteq> []
   \<and> list_all2 (\<lambda>c x. translatePredicate [c] = Inr x)
        [Equal ''a'' (GInt 1), Or [GreaterThan ''b'' (GInt 2), LowerThan ''c'' (GInt 3)]]
        [''a IS 1'', ''(b > 2 OR c < 3)'']
   \<and> translatePredicate
        [And [Equal ''a'' (GInt 1), Or [GreaterThan ''b'' (GInt 2), LowerThan ''c'' (GInt 3)]]]
        = Inr ''(a IS 1 AND (b > 2 OR c < 3))''
   \<and> translatePredicate
        [Or [Equal ''a'' (GInt 1), Or [GreaterThan ''b'' (GInt 2), LowerThan ''c'' (GInt 3)]]]
        = Inr ''(a IS 1 OR (b > 2 OR c < 3))''"
proof -
  have h1: "[Equal ''a'' (GInt 1), Or [GreaterThan ''b'' (GInt 2), LowerThan ''c'' (GInt 3)]] \<noteq> []"
    by simp
  have h2: "list_all2 (\<lambda>c x. translatePredicate [c] = Inr x)
        [Equal ''a'' (GInt 1), Or [GreaterThan ''b'' (GInt 2), LowerThan ''c'' (GInt 3)]]
        [''a IS 1'', ''(b > 2 OR c < 3)'']"
    by (simp add: translatePredicate_def sliceTo_def fmtD_def digitsOf_digit)
  from and_or_group_translation [OF h1 h2] h1 h2 show ?thesis by simp
qed

text \<open>
  C2. A query with an empty predicate: the translation is the empty string and
  \<open>getSelect\<close> leaves the WHERE clause out, but \<open>getDelete\<close> writes the keyword
  \<open>WHERE\<close> with nothing after it.
\<close>

theorem empty_predicate_statements:
  "translatePredicate [] = Inr []
   \<and> getSelect h \<lparr>Predicate = [], Sort = None, Window = None\<rparr>
       = Inr (''SELECT * FROM '' @ tableName h @ '';'')
   \<and> getDelete h \<lparr>Predicate = [], Sort = srt, Window = w\<rparr>
       = Inr (''DELETE FROM '' @ tableName h @ '' WHERE ;'')"
  by (simp add: translatePredicate_def getSelect_def getDelete_def getQuery_def)

text \<open>
  C3. An equality (a not-equal) comparison with a string value translates to
  \<open>field LIKE pattern ESCAPE '\'\<close> (\<open>NOT LIKE\<close>), where the pattern is the encoded
  literal with every \<open>*\<close> replaced by \<open>%\<close> and every \<open>_\<close> by \<open>\_\<close>; with a
  value that is no string it translates to \<open>field IS literal\<close> (\<open>IS NOT\<close>).
\<close>

theorem equality_translation:
  "translatePredicate [Equal f (GString s)]
     = Inr (f @ '' LIKE '' @ likePattern (literal (GString s))
              @ '' ESCAPE '' @ quote @ backslash @ quote)
   \<and> translatePredicate [NotEqual f (GString s)]
     = Inr (f @ '' NOT LIKE '' @ likePattern (literal (GString s))
              @ '' ESCAPE '' @ quote @ backslash @ quote)
   \<and> likePattern (literal (GString s)) = quote @ likePattern s @ quote
   \<and> (\<not> isString v \<longrightarrow>
        translatePredicate [Equal f v] = Inr (f @ '' IS '' @ literal v)
      \<and> translatePredicate [NotEqual f v] = Inr (f @ '' IS NOT '' @ literal v))"
proof -
  have l: "likePattern (literal (GString s)) = quote @ likePattern s @ quote"
    by (simp add: literal_GString likePattern_def)
  have e: "translatePredicate [Equal f (GString s)]
     = Inr (f @ '' LIKE '' @ likePattern (literal (GString s))
              @ '' ESCAPE '' @ quote @ backslash @ quote)"
    unfolding replace_like [symmetric]
    by (simp add: translatePredicate_def literal_GString)
  have n: "translatePredicate [NotEqual f (GString s)]
     = Inr (f @ '' NOT LIKE '' @ likePattern (literal (GString s))
              @ '' ESCAPE '' @ quote @ backslash @ quote)"
    unfolding replace_like [symmetric]
    by (simp add: translatePredicate_def literal_GString)
  have o: "\<not> isString v \<longrightarrow>
        translatePredicate [Equal f v] = Inr (f @ '' IS '' @ literal v)
      \<and> translatePredicate [NotEqual f v] = Inr (f @ '' IS NOT '' @ literal v)"
    by (simp add: translatePredicate_def notImplemented_valueToString)
  from e n l o show ?thesis by blast
qed

theorem equality_translation_witness:
  "translatePredicate [Equal ''name'' (GString ''a_l*'')]
     = Inr (''name LIKE '' @ quote @ ''a'' @ backslash @ ''_l%'' @ quote
              @ '' ESCAPE '' @ quote @ backslash @ quote)
   \<and> \<not> isString (GInt 5)
   \<and> translatePredicate [Equal ''age'' (GInt 5)] = Inr ''age IS 5''
   \<and> translatePredicate [NotEqual ''age'' (GInt 5)] = Inr ''age IS NOT 5''"
  using equality_translation [of "''name''" "''a_l*''" "GInt 5"]
    equality_translation [of "''age''" "''a_l*''" "GInt 5"]
  by (simp add: literal_def likePattern_def fmtD_def digitsOf_digit)

text \<open>
  C4, as amended. The value encoder never fails: it returns a literal for every value. A
  value whose type is none of the scalar types that the encoder names is encoded as its
  \<open>%v\<close> text between single quotes, and the translation of the comparison that
  holds it goes on with that literal.
\<close>

theorem value_encoder_never_fails:
  "(\<exists>s. valueToString v = Inr s)
   \<and> (\<not> scalar v \<longrightarrow>
        valueToString v = Inr (quote @ fmtV v @ quote)
      \<and> translatePredicate [GreaterThan f v] = Inr (f @ '' > '' @ quote @ fmtV v @ quote))"
  by (cases v) (simp_all add: translatePredicate_def)

theorem value_encoder_never_fails_witness:
  "\<not> scalar (GBytes ''hi'')
   \<and> valueToString (GBytes ''hi'') = Inr (quote @ ''[104 105]'' @ quote)
   \<and> translatePredicate [GreaterThan ''raw'' (GBytes ''hi'')]
       = Inr (''raw > '' @ quote @ ''[104 105]'' @ quote)"
  using value_encoder_never_fails [of "GBytes ''hi''" "''raw''"]
  by (simp add: digitsOf.simps)

theorem unsupported_value_encoded:
  "\<not> scalar (GOther ''[1 2]'' ''[%!s(int=1) %!s(int=2)]'')
   \<and> valueToString (GOther ''[1 2]'' ''[%!s(int=1) %!s(int=2)]'')
       = Inr (quote @ ''[1 2]'' @ quote)
   \<and> fullVisit (Payload sampleItem) [''id'', ''created'']
   \<and> getUpdate sampleClock users sampleItem
        (sampleItem\<lparr>ID := GOther ''[1 2]'' ''[%!s(int=1) %!s(int=2)]''\<rparr>)
        [''id'', ''created'']
       = Inr (''UPDATE users SET etag='' @ quote @ ''e1'' @ quote
               @ '',created='' @ quote @ ''1999-01-01T00:00:00Z'' @ quote
               @ '' WHERE id='' @ quote @ ''[1 2]'' @ quote
               @ '' AND etag='' @ quote @ ''e1'' @ quote @ '';'')"
  by (auto simp: getUpdate_def rangeMap_def List.map_filter_simps sampleItem_def users_def
      sliceTo_def fullVisit_def)

text \<open>
  C5, as amended. In the INSERT statement of \<open>getInsert\<close> the payload keys
  \<open>created\<close> and \<open>updated\<close> are serialized as the reading of the server clock,
  whatever the payload holds for them. In the UPDATE statement of \<open>getUpdate\<close> this
  holds for the key \<open>updated\<close>; the key \<open>created\<close> is serialized as the literal of
  its payload value.
\<close>

theorem insert_update_timestamps:
  "getInsert clk h i ks =
     Inr (''INSERT INTO '' @ tableName h @ ''(''
            @ stringsJoin (''etag'' # map fst (rangeMap (Payload i) ks)) '','' @ '') VALUES(''
            @ stringsJoin ((quote @ ETag i @ quote)
                 # map (insertValue clk) (enumerate 0 (rangeMap (Payload i) ks))) '',''
            @ '');'')
   \<and> getUpdate clk h i o' ks =
     Inr (''UPDATE '' @ tableName h @ '' SET ''
            @ stringsJoin ((''etag='' @ quote @ ETag i @ quote)
                 # map (\<lambda>e. fst (snd e) @ ''='' @ updateValue clk e)
                     (filter (\<lambda>e. fst (snd e) \<noteq> ''id'')
                        (enumerate 0 (rangeMap (Payload i) ks)))) '',''
            @ '' WHERE id='' @ literal (ID o') @ '' AND etag='' @ quote @ ETag o' @ quote @ '';'')
   \<and> insertValue clk (n, ''created'', v) = quote @ clk n @ quote
   \<and> insertValue clk (n, ''updated'', v) = quote @ clk n @ quote
   \<and> updateValue clk (n, ''updated'', v) = quote @ clk n @ quote
   \<and> updateValue clk (n, ''created'', v) = literal v"
  using getInsert_closed [of clk h i ks] getUpdate_closed [of clk h i o' ks]
  by (simp add: insertValue_def updateValue_def)

theorem update_created_from_payload:
  "fullVisit (Payload sampleItem) [''id'', ''created'']
   \<and> getUpdate sampleClock users sampleItem sampleItem [''id'', ''created'']
       = Inr (''UPDATE users SET etag='' @ quote @ ''e1'' @ quote
               @ '',created='' @ quote @ ''1999-01-01T00:00:00Z'' @ quote
               @ '' WHERE id='' @ quote @ ''1'' @ quote
               @ '' AND etag='' @ quote @ ''e1'' @ quote @ '';'')
   \<and> ''1999-01-01T00:00:00Z'' \<noteq> sampleClock 1"
  by (auto simp: getUpdate_def rangeMap_def List.map_filter_simps sampleItem_def users_def
      sliceTo_def sampleClock_def fullVisit_def)

text \<open>
  C6, as amended. The INSERT statement that \<open>insertItems\<close> prepares for
  \<open>newSQLItem(item)\<close> has the column \<open>etag\<close> and then the payload keys other than
  \<open>id\<close>: it never has the column \<open>id\<close>. The INSERT statement of \<open>getInsert\<close> has
  the column \<open>etag\<close> and then every payload key, so it has the column \<open>id\<close> when
  the payload has the key.
\<close>

theorem insert_column_lists:
  "''id'' \<notin> set (map fst (rangeMap (sqlPayload (newSQLItem i ks)) ks'))
   \<and> insertItemsStatement h (newSQLItem i ks) ks' =
       Inr (''INSERT INTO '' @ tableName h @ ''(''
              @ stringsJoin (''etag'' # map fst (rangeMap (sqlPayload (newSQLItem i ks)) ks'))
                  '', ''
              @ '')VALUES(''
              @ stringsJoin ((quote @ ETag i @ quote)
                   # map (\<lambda>e. literal (snd e)) (rangeMap (sqlPayload (newSQLItem i ks)) ks'))
                  '', ''
              @ '') RETURNING id'')
   \<and> getInsert clk h i ks =
       Inr (''INSERT INTO '' @ tableName h @ ''(''
              @ stringsJoin (''etag'' # map fst (rangeMap (Payload i) ks)) '','' @ '') VALUES(''
              @ stringsJoin ((quote @ ETag i @ quote)
                   # map (insertValue clk) (enumerate 0 (rangeMap (Payload i) ks))) '',''
              @ '');'')
   \<and> (fullVisit (Payload i) ks \<longrightarrow>
        set (map fst (rangeMap (Payload i) ks)) = dom (Payload i)
      \<and> dom (sqlPayload (newSQLItem i ks)) = dom (Payload i) - {''id''})"
proof -
  have a: "''id'' \<notin> set (map fst (rangeMap (sqlPayload (newSQLItem i ks)) ks'))"
    using newSQLItem_no_id [of i ks] by (simp add: rangeMap_keys)
  have e: "sqlETag (newSQLItem i ks) = ETag i" by (simp add: newSQLItem_def Let_def)
  have d: "fullVisit (Payload i) ks \<longrightarrow>
      dom (sqlPayload (newSQLItem i ks)) = dom (Payload i) - {''id''}"
    using rangeMap_full [of "Payload i" ks]
    by (auto simp: newSQLItem_def Let_def newSQLItemLoop_dom)
  show ?thesis
    using a d insertItemsStatement_closed [of h "newSQLItem i ks" ks']
      getInsert_closed [of clk h i ks] rangeMap_full [of "Payload i" ks]
    unfolding e by blast
qed

theorem insert_column_lists_witness:
  "fullVisit (Payload sampleItem) [''id'', ''created'']
   \<and> insertItemsStatement users (newSQLItem sampleItem [''id'', ''created'']) [''created'']
       = Inr (''INSERT INTO users(etag, created)VALUES('' @ quote @ ''e1'' @ quote @ '', ''
               @ quote @ ''1999-01-01T00:00:00Z'' @ quote @ '') RETURNING id'')
   \<and> set (map fst (rangeMap (Payload sampleItem) [''id'', ''created''])) = dom (Payload sampleItem)
   \<and> dom (sqlPayload (newSQLItem sampleItem [''id'', ''created''])) = {''created''}"
proof -
  have h: "fullVisit (Payload sampleItem) [''id'', ''created'']"
    by (auto simp: fullVisit_def sampleItem_def)
  have p: "dom (Payload sampleItem) = {''id'', ''created''}"
    by (auto simp: sampleItem_def)
  have s: "insertItemsStatement users (newSQLItem sampleItem [''id'', ''created'']) [''created'']
       = Inr (''INSERT INTO users(etag, created)VALUES('' @ quote @ ''e1'' @ quote @ '', ''
               @ quote @ ''1999-01-01T00:00:00Z'' @ quote @ '') RETURNING id'')"
    by (simp add: insertItemsStatement_def newSQLItem_def rangeMap_def List.map_filter_simps
        sampleItem_def users_def sliceTo_def)
  from insert_column_lists [of sampleItem "[''id'', ''created'']" "[''created'']" users sampleClock]
    h p s show ?thesis by auto
qed

theorem getInsert_id_column:
  "fullVisit (Payload sampleItem) [''id'', ''created'']
   \<and> getInsert sampleClock users sampleItem [''id'', ''created'']
       = Inr (''INSERT INTO users(etag,id,created) VALUES('' @ quote @ ''e1'' @ quote @ '',''
               @ quote @ ''1'' @ quote @ '','' @ quote @ ''2018-02-27T23:07:44Z'' @ quote
               @ '');'')"
  by (auto simp: getInsert_def rangeMap_def List.map_filter_simps sampleItem_def users_def
      sliceTo_def sampleClock_def fullVisit_def)

text \<open>
  C7. An identifier that matches no stored row: the query for the stored etag answers
  \<open>sql.ErrNoRows\<close>, and \<open>Update\<close> and \<open>Delete\<close> return that error, which is
  neither \<open>resource.ErrNotFound\<close> nor \<open>resource.ErrConflict\<close>.
\<close>

theorem missing_row_update_delete:
  "Update emptyDB clk h item' original ks s = (Inl (Error ErrNoRows), s + 3)
   \<and> Delete emptyDB h item' s = (Inl (Error ErrNoRows), s + 3)
   \<and> ErrNoRows \<noteq> ErrNotFound"
  by (simp add: Update_def Delete_def compareEtags_def emptyDB_def)

text \<open>
  C8. A database that answers the insert statement with the duplicate-key error of the
  driver: \<open>Insert\<close> returns the driver's error as it is, not \<open>resource.ErrConflict\<close>;
  \<open>insertItems\<close> of the later revision returns \<open>resource.ErrConflict\<close>.
\<close>

theorem duplicate_key_insert:
  "Insert duplicateDB clk h ((i, ks) # items) s = (Inl (Error duplicateKeyError), s + 3)
   \<and> duplicateKeyError \<noteq> ErrConflict
   \<and> insertItems duplicateDB h ((si, ks') # sitems) s = (Inl (Error ErrConflict), s + 4)"
  by (simp add: Insert_def getInsert_closed duplicateDB_def emptyDB_def duplicateKeyError_def
      insertItems_def insertItemsStatement_closed)









end
